theory Spec2Isabelle
  imports Complex_Main
begin

section \<open>Extra seawater functions (seawater/extras/sw_extras.py)\<close>

text \<open>
  The functions of \<^verbatim>\<open>sw_extras.py\<close> are elementwise numpy formulas. A number is
  modelled as a real, an array as a list of reals, \<^verbatim>\<open>np.asarray\<close> as the identity
  on lists. The module \<^verbatim>\<open>seawater.csiro\<close> (imported as \<^verbatim>\<open>sw\<close>) is not among the
  sources, so \<^verbatim>\<open>sw.dens\<close> is a parameter of the functions that call it.
\<close>

definition asarray :: "real list \<Rightarrow> real list" where
  "asarray xs = xs"

text \<open>\<^verbatim>\<open>sgmt = sw.dens(s, t, p) - 1000.0\<close>: the scalar is broadcast over the array.\<close>

definition sigma_t ::
  "(real list \<Rightarrow> real list \<Rightarrow> real list \<Rightarrow> real list) \<Rightarrow>
     real list \<Rightarrow> real list \<Rightarrow> real list \<Rightarrow> real list" where
  "sigma_t sw_dens s t p =
     (let s = asarray s; t = asarray t; p = asarray p;
          sgmt = map (\<lambda>d. d - 1000.0) (sw_dens s t p)
      in sgmt)"

text \<open>\<^verbatim>\<open>bvfr = np.sqrt( np.abs( bvfr2 ) ) * np.sign( bvfr2 )\<close>, at one sample.\<close>

definition N :: "real \<Rightarrow> real" where
  "N bvfr2 = sqrt \<bar>bvfr2\<bar> * sgn bvfr2"

text \<open>
  \<^verbatim>\<open>n2 = n**2 * np.sign(n); s2 = s**2; ri = n2 / s2\<close>, at one sample. Division is
  the division of the reals: the non-finite values numpy produces for \<open>s = 0\<close> have no
  counterpart here.
\<close>

definition richnumb :: "real \<Rightarrow> real \<Rightarrow> real" where
  "richnumb n s =
     (let n2 = n ^ 2 * sgn n;
          s2 = s ^ 2;
          ri = n2 / s2
      in ri)"

text \<open>
  The values of a numpy float array: the finite numbers, the two infinities and
  not-a-number. The sign of a zero is not modelled: a zero denominator is the positive
  zero, which is what a square is. Rounding, overflow and underflow are not modelled. Multiplication and division follow IEEE 754:
  not-a-number is absorbing, a nonzero number divided by zero is the infinity of its
  sign, and \<open>0 / 0\<close>, \<open>0 * inf\<close> and \<open>inf / inf\<close> are not-a-number. numpy warns in these
  cases and raises nothing.
\<close>

datatype npfloat = Fin real | PInf | NInf | NaN

fun fsign :: "npfloat \<Rightarrow> real" where
  "fsign (Fin x) = sgn x"
| "fsign PInf = 1"
| "fsign NInf = - 1"
| "fsign NaN = 0"

definition inf_of :: "real \<Rightarrow> npfloat" where
  "inf_of sg = (if 0 < sg then PInf else if sg < 0 then NInf else NaN)"

fun np_sign :: "npfloat \<Rightarrow> npfloat" where
  "np_sign (Fin x) = Fin (sgn x)"
| "np_sign PInf = Fin 1"
| "np_sign NInf = Fin (- 1)"
| "np_sign NaN = NaN"

fun np_square :: "npfloat \<Rightarrow> npfloat" where
  "np_square (Fin x) = Fin (x ^ 2)"
| "np_square PInf = PInf"
| "np_square NInf = PInf"
| "np_square NaN = NaN"

fun np_mul :: "npfloat \<Rightarrow> npfloat \<Rightarrow> npfloat" where
  "np_mul NaN y = NaN"
| "np_mul x NaN = NaN"
| "np_mul (Fin a) (Fin b) = Fin (a * b)"
| "np_mul x y = inf_of (fsign x * fsign y)"

fun np_div :: "npfloat \<Rightarrow> npfloat \<Rightarrow> npfloat" where
  "np_div NaN y = NaN"
| "np_div x NaN = NaN"
| "np_div (Fin a) (Fin b) = (if b = 0 then inf_of (sgn a) else Fin (a / b))"
| "np_div (Fin a) y = Fin 0"
| "np_div x (Fin b) = inf_of (fsign x * (if b < 0 then - 1 else 1))"
| "np_div x y = NaN"

definition nonfinite :: "npfloat \<Rightarrow> bool" where
  "nonfinite v = (v = PInf \<or> v = NInf \<or> v = NaN)"

text \<open>The three lines of \<^verbatim>\<open>richnumb\<close> over these values.\<close>

definition richnumb_np :: "npfloat \<Rightarrow> npfloat \<Rightarrow> npfloat" where
  "richnumb_np n s =
     (let n2 = np_mul (np_square n) (np_sign n);
          s2 = np_square s;
          ri = np_div n2 s2
      in ri)"

section \<open>Name resolution and exceptions of the Python runtime\<close>

text \<open>
  The functions of \<^verbatim>\<open>sea-tmp.py\<close> read names that are neither parameters nor
  assigned in the body; Python resolves such a name in the module namespace when the
  statement runs and raises \<^verbatim>\<open>NameError\<close> if it is not bound there. A name that
  the body assigns somewhere is local to the whole body, and reading it before its
  first assignment raises \<^verbatim>\<open>UnboundLocalError\<close>, a subclass of \<^verbatim>\<open>NameError\<close>.
  An exception is a value \<open>Inl e\<close>; a returned value is \<open>Inr v\<close>.
\<close>

datatype error =
    NameError string
  | UnboundLocalError string
  | AttributeError string
  | TypeError
  | ValueError
  | IndexError
  | ZeroDivisionError

type_synonym 'a res = "error + 'a"

text \<open>\<^verbatim>\<open>except NameError\<close> catches both classes.\<close>

fun is_NameError :: "error \<Rightarrow> bool" where
  "is_NameError (NameError x) = True"
| "is_NameError (UnboundLocalError x) = True"
| "is_NameError e = False"

definition raises_NameError :: "'a res \<Rightarrow> bool" where
  "raises_NameError r = (case r of Inl e \<Rightarrow> is_NameError e | Inr v \<Rightarrow> False)"

definition returns :: "'a res \<Rightarrow> bool" where
  "returns r = (case r of Inl e \<Rightarrow> False | Inr v \<Rightarrow> True)"

text \<open>Sequencing: the first exception ends the run.\<close>

definition bind_res :: "'a res \<Rightarrow> ('a \<Rightarrow> 'b res) \<Rightarrow> 'b res" where
  "bind_res m f = (case m of Inl e \<Rightarrow> Inl e | Inr x \<Rightarrow> f x)"

text \<open>
  An argument that is read through an attribute, an index or a numpy call is a Python
  object of one of three kinds: a Python number (\<^verbatim>\<open>int\<close> or \<^verbatim>\<open>float\<close>), a Python
  list of numbers, or a numpy value. A numpy value is given by its shape and its
  elements in row-major order; the shape is empty for a numpy scalar and for a
  0-dimensional array, and has one entry for each dimension otherwise. The elements
  number the product of the shape.
\<close>

type_synonym ndarray = "nat list \<times> real list"

datatype pyval = Num real | Lst "real list" | Nd "nat list" "real list"

text \<open>
  The module namespace, beyond the functions the file defines itself (these are always
  bound, and are the constants below): the data names, whether \<^verbatim>\<open>np\<close> is bound to
  numpy, and the two functions the file calls without defining them. A data name holds
  a numpy number (a \<^verbatim>\<open>numpy.float64\<close>), one sample of a numpy field; numbers are reals, so numpy's non-finite
  results (division by zero, root or logarithm of a negative number) have no
  counterpart, and numpy raises nothing there. No function of the file assigns a module
  name, so a name is looked up where it is first read and the value is used again at
  its later reads.
\<close>

record globals =
  g_num :: "string \<rightharpoonup> real"
  g_np :: bool
  g_adtg :: "(real \<Rightarrow> real \<Rightarrow> real \<Rightarrow> real res) option"
  g_cor :: "(pyval \<Rightarrow> pyval res) option"

text \<open>The file has no import and no assignment at module level.\<close>

definition file_globals :: globals where
  "file_globals = \<lparr>g_num = Map.empty, g_np = False, g_adtg = None, g_cor = None\<rparr>"

definition glob :: "globals \<Rightarrow> string \<Rightarrow> real res" where
  "glob G x = (case g_num G x of None \<Rightarrow> Inl (NameError x) | Some v \<Rightarrow> Inr v)"

definition glob_np :: "globals \<Rightarrow> unit res" where
  "glob_np G = (if g_np G then Inr () else Inl (NameError ''np''))"

definition glob_adtg :: "globals \<Rightarrow> (real \<Rightarrow> real \<Rightarrow> real \<Rightarrow> real res) res" where
  "glob_adtg G = (case g_adtg G of None \<Rightarrow> Inl (NameError ''adtg'') | Some f \<Rightarrow> Inr f)"

definition glob_cor :: "globals \<Rightarrow> (pyval \<Rightarrow> pyval res) res" where
  "glob_cor G = (case g_cor G of None \<Rightarrow> Inl (NameError ''cor'') | Some f \<Rightarrow> Inr f)"

definition unbound_local :: "string \<Rightarrow> real res" where
  "unbound_local x = Inl (UnboundLocalError x)"

section \<open>The equation of state (seawater/sea-tmp.py)\<close>

text \<open>
  Every parameter below is lowercase in the source and never read by the body, so the
  model takes it at any type. A literal \<^verbatim>\<open>xe-k\<close> is written \<open>x / 10 ^ k\<close>, and
  \<^verbatim>\<open>x**0.5\<close> is \<open>sqrt x\<close>.
\<close>

definition smow :: "globals \<Rightarrow> 'a \<Rightarrow> real res" where
  "smow G t =
     (let a0 = 999.842594;
          a1 = 6.793952 / 10 ^ 2;
          a2 = - 9.095290 / 10 ^ 3;
          a3 = 1.001685 / 10 ^ 4;
          a4 = - 1.120083 / 10 ^ 6;
          a5 = 6.536332 / 10 ^ 9
      in bind_res (glob G ''T'') (\<lambda>T.
         bind_res (glob G ''T68conv'') (\<lambda>T68conv.
         let T68 = T * T68conv;
             dens = a0 + (a1 + (a2 + (a3 + (a4 + a5 * T68) * T68) * T68) * T68) * T68
         in Inr dens)))"

definition dens0 :: "globals \<Rightarrow> 'a \<Rightarrow> 'b \<Rightarrow> real res" where
  "dens0 G s t =
     bind_res (glob G ''T'') (\<lambda>T.
     bind_res (glob G ''T68conv'') (\<lambda>T68conv.
     let T68 = T * T68conv;
         b0 = 8.24493 / 10 ^ 1;
         b1 = - 4.0899 / 10 ^ 3;
         b2 = 7.6438 / 10 ^ 5;
         b3 = - 8.2467 / 10 ^ 7;
         b4 = 5.3875 / 10 ^ 9;
         c0 = - 5.72466 / 10 ^ 3;
         c1 = 1.0227 / 10 ^ 4;
         c2 = - 1.6546 / 10 ^ 6;
         d0 = 4.8314 / 10 ^ 4
     in bind_res (smow G T) (\<lambda>smow_T.
        bind_res (glob G ''S'') (\<lambda>S.
        let dens = smow_T + (b0 + (b1 + (b2 + (b3 + b4 * T68) * T68) * T68) * T68) *
                   S + (c0 + (c1 + c2 * T68) * T68) * S * sqrt S + d0 * S ^ 2
        in Inr dens))))"

definition seck :: "globals \<Rightarrow> 'a \<Rightarrow> 'b \<Rightarrow> 'c \<Rightarrow> real res" where
  "seck G s t p =
     bind_res (unbound_local ''P'') (\<lambda>P.
     let P = P / 10.0 in
     bind_res (glob G ''T'') (\<lambda>T.
     bind_res (glob G ''T68conv'') (\<lambda>T68conv.
     let T68 = T * T68conv;
         h3 = - 5.77905 / 10 ^ 7;
         h2 = 1.16092 / 10 ^ 4;
         h1 = 1.43713 / 10 ^ 3;
         h0 = 3.239908;
         AW = h0 + (h1 + (h2 + h3 * T68) * T68) * T68;
         k2 = 5.2787 / 10 ^ 8;
         k1 = - 6.12293 / 10 ^ 6;
         k0 = 8.50935 / 10 ^ 5;
         BW = k0 + (k1 + k2 * T68) * T68;
         e4 = - 5.155288 / 10 ^ 5;
         e3 = 1.360477 / 10 ^ 2;
         e2 = - 2.327105;
         e1 = 148.4206;
         e0 = 19652.21;
         KW = e0 + (e1 + (e2 + (e3 + e4 * T68) * T68) * T68) * T68;
         j0 = 1.91075 / 10 ^ 4;
         i2 = - 1.6078 / 10 ^ 6;
         i1 = - 1.0981 / 10 ^ 5;
         i0 = 2.2838 / 10 ^ 3
     in bind_res (glob G ''S'') (\<lambda>S.
        let SR = sqrt S;
            A = AW + (i0 + (i1 + i2 * T68) * T68 + j0 * SR) * S;
            m2 = 9.1697 / 10 ^ 10;
            m1 = 2.0816 / 10 ^ 8;
            m0 = - 9.9348 / 10 ^ 7;
            B = BW + (m0 + (m1 + m2 * T68) * T68) * S;
            f3 = - 6.1670 / 10 ^ 5;
            f2 = 1.09987 / 10 ^ 2;
            f1 = - 0.603459;
            f0 = 54.6746;
            g2 = - 5.3009 / 10 ^ 4;
            g1 = 1.6483 / 10 ^ 2;
            g0 = 7.944 / 10 ^ 2;
            K0 = KW + (f0 + (f1 + (f2 + f3 * T68) * T68) * T68
                    + (g0 + (g1 + g2 * T68) * T68) * SR) * S;
            K = K0 + (A + B * P) * P
        in Inr K))))"

text \<open>
  In \<^verbatim>\<open>dens\<close> the name \<^verbatim>\<open>P\<close> is assigned on the third line, hence local, and read
  on the second.
\<close>

definition dens :: "globals \<Rightarrow> 'a \<Rightarrow> 'b \<Rightarrow> 'c \<Rightarrow> real res" where
  "dens G s t p =
     bind_res (glob G ''S'') (\<lambda>S.
     bind_res (glob G ''T'') (\<lambda>T.
     bind_res (dens0 G S T) (\<lambda>densP0.
     bind_res (unbound_local ''P'') (\<lambda>P.
     bind_res (seck G S T P) (\<lambda>K.
     let P = P / 10.0;
         dens = densP0 / (1 - P / K)
     in Inr dens)))))"

text \<open>
  \<^verbatim>\<open>ptmp\<close> calls \<^verbatim>\<open>adtg\<close>, which the file does not define. \<^verbatim>\<open>(2)**0.5\<close> is
  \<open>sqrt 2\<close>.
\<close>

definition ptmp :: "globals \<Rightarrow> 'a \<Rightarrow> 'b \<Rightarrow> 'c \<Rightarrow> 'd \<Rightarrow> real res" where
  "ptmp G s t p pr =
     bind_res (glob G ''PR'') (\<lambda>PR.
     bind_res (glob G ''P'') (\<lambda>P.
     let del_P = PR - P in
     bind_res (glob_adtg G) (\<lambda>adtg.
     bind_res (glob G ''S'') (\<lambda>S.
     bind_res (glob G ''T'') (\<lambda>T.
     bind_res (adtg S T P) (\<lambda>a1.
     let del_th = del_P * a1 in
     bind_res (glob G ''T68conv'') (\<lambda>T68conv.
     let th = T * T68conv + 0.5 * del_th;
         q = del_th
     in bind_res (adtg S (th / T68conv) (P + 0.5 * del_P)) (\<lambda>a2.
     let del_th = del_P * a2;
         th = th + (1 - 1 / sqrt 2) * (del_th - q);
         q = (2 - sqrt 2) * del_th + (- 2 + 3 / sqrt 2) * q
     in bind_res (adtg S (th / T68conv) (P + 0.5 * del_P)) (\<lambda>a3.
     let del_th = del_P * a3;
         th = th + (1 + 1 / sqrt 2) * (del_th - q);
         q = (2 + sqrt 2) * del_th + (- 2 - 3 / sqrt 2) * q
     in bind_res (adtg S (th / T68conv) (P + del_P)) (\<lambda>a4.
     let del_th = del_P * a4;
         PT = (th + (del_th - 2 * q) / 6) / T68conv
     in Inr PT))))))))))"

definition temp :: "globals \<Rightarrow> 'a \<Rightarrow> 'b \<Rightarrow> 'c \<Rightarrow> 'd \<Rightarrow> real res" where
  "temp G s pt p pr =
     bind_res (glob G ''S'') (\<lambda>S.
     bind_res (glob G ''PTMP'') (\<lambda>PTMP.
     bind_res (glob G ''PR'') (\<lambda>PR.
     bind_res (glob G ''P'') (\<lambda>P.
     bind_res (ptmp G S PTMP PR P) (\<lambda>T.
     Inr T)))))"

definition pden :: "globals \<Rightarrow> 'a \<Rightarrow> 'b \<Rightarrow> 'c \<Rightarrow> 'd \<Rightarrow> real res" where
  "pden G s t p pr =
     bind_res (glob G ''S'') (\<lambda>S.
     bind_res (glob G ''T'') (\<lambda>T.
     bind_res (glob G ''P'') (\<lambda>P.
     bind_res (glob G ''PR'') (\<lambda>PR.
     bind_res (ptmp G S T P PR) (\<lambda>PT.
     bind_res (dens G S PT PR) (\<lambda>pden.
     Inr pden))))))"

definition svan :: "globals \<Rightarrow> 'a \<Rightarrow> 'b \<Rightarrow> 'c \<Rightarrow> real res" where
  "svan G s t p =
     bind_res (glob G ''S'') (\<lambda>S.
     bind_res (glob G ''T'') (\<lambda>T.
     bind_res (glob G ''P'') (\<lambda>P.
     bind_res (dens G S T P) (\<lambda>d1.
     bind_res (dens G (35::real) (0.0::real) P) (\<lambda>d2.
     let svan = 1 / d1 - 1 / d2
     in Inr svan)))))"

section \<open>Sound speed, heat capacity, pressure, gas solubility, wave speed\<close>

definition svel :: "globals \<Rightarrow> 'a \<Rightarrow> 'b \<Rightarrow> 'c \<Rightarrow> real res" where
  "svel G s t p =
     bind_res (unbound_local ''P'') (\<lambda>P.
     let P = P / 10 in
     bind_res (glob G ''T'') (\<lambda>T.
     bind_res (glob G ''T68conv'') (\<lambda>T68conv.
     let T68 = T * T68conv;
         c00 = 1402.388;
         c01 = 5.03711;
         c02 = - 5.80852 / 10 ^ 2;
         c03 = 3.3420 / 10 ^ 4;
         c04 = - 1.47800 / 10 ^ 6;
         c05 = 3.1464 / 10 ^ 9;
         c10 = 0.153563;
         c11 = 6.8982 / 10 ^ 4;
         c12 = - 8.1788 / 10 ^ 6;
         c13 = 1.3621 / 10 ^ 7;
         c14 = - 6.1185 / 10 ^ 10;
         c20 = 3.1260 / 10 ^ 5;
         c21 = - 1.7107 / 10 ^ 6;
         c22 = 2.5974 / 10 ^ 8;
         c23 = - 2.5335 / 10 ^ 10;
         c24 = 1.0405 / 10 ^ 12;
         c30 = - 9.7729 / 10 ^ 9;
         c31 = 3.8504 / 10 ^ 10;
         c32 = - 2.3643 / 10 ^ 12;
         Cw = ((((c32 * T68 + c31) * T68 + c30) * P +
              ((((c24 * T68 + c23) * T68 + c22) * T68 + c21) * T68 + c20)) * P +
              ((((c14 * T68 + c13) * T68 + c12) * T68 + c11) * T68 + c10)) * P +
              ((((c05 * T68 + c04) * T68 + c03) * T68 + c02) * T68 + c01) * T68 + c00;
         a00 = 1.389;
         a01 = - 1.262 / 10 ^ 2;
         a02 = 7.164 / 10 ^ 5;
         a03 = 2.006 / 10 ^ 6;
         a04 = - 3.21 / 10 ^ 8;
         a10 = 9.4742 / 10 ^ 5;
         a11 = - 1.2580 / 10 ^ 5;
         a12 = - 6.4885 / 10 ^ 8;
         a13 = 1.0507 / 10 ^ 8;
         a14 = - 2.0122 / 10 ^ 10;
         a20 = - 3.9064 / 10 ^ 7;
         a21 = 9.1041 / 10 ^ 9;
         a22 = - 1.6002 / 10 ^ 10;
         a23 = 7.988 / 10 ^ 12;
         a30 = 1.100 / 10 ^ 10;
         a31 = 6.649 / 10 ^ 12;
         a32 = - 3.389 / 10 ^ 13;
         A = ((((a32 * T68 + a31) * T68 + a30) * P +
             (((a23 * T68 + a22) * T68 + a21) * T68 + a20)) * P +
             ((((a14 * T68 + a13) * T68 + a12) * T68 + a11) * T68 + a10)) * P +
             (((a04 * T68 + a03) * T68 + a02) * T68 + a01) * T68 + a00;
         b00 = - 1.922 / 10 ^ 2;
         b01 = - 4.42 / 10 ^ 5;
         b10 = 7.3637 / 10 ^ 5;
         b11 = 1.7945 / 10 ^ 7;
         B = b00 + b01 * T68 + (b10 + b11 * T68) * P;
         d00 = 1.727 / 10 ^ 3;
         d10 = - 7.9836 / 10 ^ 6;
         D = d00 + d10 * P
     in bind_res (glob G ''S'') (\<lambda>S.
        let svel = Cw + A * S + B * S * sqrt S + D * S ^ 2
        in Inr svel))))"

text \<open>In \<^verbatim>\<open>cp\<close> the second and third tables assign \<^verbatim>\<open>a0\<close>, \<^verbatim>\<open>b0\<close>, ... again.\<close>

definition cp :: "globals \<Rightarrow> 'a \<Rightarrow> 'b \<Rightarrow> 'c \<Rightarrow> real res" where
  "cp G s t p =
     bind_res (unbound_local ''P'') (\<lambda>P.
     let P = P / 10 in
     bind_res (glob G ''T'') (\<lambda>T.
     bind_res (glob G ''T68conv'') (\<lambda>T68conv.
     let T68 = T * T68conv;
         c0 = 4217.4;
         c1 = - 3.720283;
         c2 = 0.1412855;
         c3 = - 2.654387 / 10 ^ 3;
         c4 = 2.093236 / 10 ^ 5;
         a0 = - 7.64357;
         a1 = 0.1072763;
         a2 = - 1.38385 / 10 ^ 3;
         b0 = 0.1770383;
         b1 = - 4.07718 / 10 ^ 3;
         b2 = 5.148 / 10 ^ 5
     in bind_res (glob G ''S'') (\<lambda>S.
        let Cpst0 = (((c4 * T68 + c3) * T68 + c2) * T68 + c1) * T68 + c0 +
                    (a0 + a1 * T68 + a2 * T68 ^ 2) * S +
                    (b0 + b1 * T68 + b2 * T68 ^ 2) * S * sqrt S;
            a0 = - 4.9592 / 10 ^ 1;
            a1 = 1.45747 / 10 ^ 2;
            a2 = - 3.13885 / 10 ^ 4;
            a3 = 2.0357 / 10 ^ 6;
            a4 = 1.7168 / 10 ^ 8;
            b0 = 2.4931 / 10 ^ 4;
            b1 = - 1.08645 / 10 ^ 5;
            b2 = 2.87533 / 10 ^ 7;
            b3 = - 4.0027 / 10 ^ 9;
            b4 = 2.2956 / 10 ^ 11;
            c0 = - 5.422 / 10 ^ 8;
            c1 = 2.6380 / 10 ^ 9;
            c2 = - 6.5637 / 10 ^ 11;
            c3 = 6.136 / 10 ^ 13;
            del_Cp0t0 = (((((c3 * T68 + c2) * T68 + c1) * T68 + c0) * P +
                        ((((b4 * T68 + b3) * T68 + b2) * T68 + b1) * T68 + b0)) * P +
                        ((((a4 * T68 + a3) * T68 + a2) * T68 + a1) * T68 + a0)) * P;
            d0 = 4.9247 / 10 ^ 3;
            d1 = - 1.28315 / 10 ^ 4;
            d2 = 9.802 / 10 ^ 7;
            d3 = 2.5941 / 10 ^ 8;
            d4 = - 2.9179 / 10 ^ 10;
            e0 = - 1.2331 / 10 ^ 4;
            e1 = - 1.517 / 10 ^ 6;
            e2 = 3.122 / 10 ^ 8;
            f0 = - 2.9558 / 10 ^ 6;
            f1 = 1.17054 / 10 ^ 7;
            f2 = - 2.3905 / 10 ^ 9;
            f3 = 1.8448 / 10 ^ 11;
            g0 = 9.971 / 10 ^ 8;
            h0 = 5.540 / 10 ^ 10;
            h1 = - 1.7682 / 10 ^ 11;
            h2 = 3.513 / 10 ^ 13;
            j1 = - 1.4300 / 10 ^ 12;
            S3_2 = S * sqrt S;
            del_Cpstp = (((((d4 * T68 + d3) * T68 + d2) * T68 + d1) * T68 + d0) * S +
                        ((e2 * T68 + e1) * T68 + e0) * S3_2) * P +
                        ((((f3 * T68 + f2) * T68 + f1) * T68 + f0) * S +
                         g0 * S3_2) * P ^ 2 +
                        (((h2 * T68 + h1) * T68 + h0) * S +
                        j1 * T68 * S3_2) * P ^ 3;
            cp = Cpst0 + del_Cp0t0 + del_Cpstp
        in Inr cp))))"

text \<open>
  \<^verbatim>\<open>np.sin\<close>, \<^verbatim>\<open>np.log\<close>, \<^verbatim>\<open>np.exp\<close>, \<^verbatim>\<open>np.tanh\<close> and \<^verbatim>\<open>np.pi\<close> read the name
  \<^verbatim>\<open>np\<close> before anything else of their statement is evaluated.
\<close>

definition pres :: "globals \<Rightarrow> 'a \<Rightarrow> 'b \<Rightarrow> real res" where
  "pres G depth lat =
     bind_res (glob_np G) (\<lambda>u.
     bind_res (glob G ''LAT'') (\<lambda>LAT.
     bind_res (glob G ''DEG2RAD'') (\<lambda>DEG2RAD.
     let X = sin (\<bar>LAT\<bar> * DEG2RAD);
         C1 = 5.92 / 10 ^ 3 + X ^ 2 * (5.25 / 10 ^ 3)
     in bind_res (glob G ''DEPTH'') (\<lambda>DEPTH.
        let pres = ((1 - C1) - sqrt (((1 - C1) ^ 2) - (8.84 / 10 ^ 6 * DEPTH))) / (4.42 / 10 ^ 6)
        in Inr pres))))"

text \<open>
  In the three solubility functions \<^verbatim>\<open>T\<close> is assigned by the first statement, hence
  local, and read by the same statement.
\<close>

definition satAr :: "globals \<Rightarrow> 'a \<Rightarrow> 'b \<Rightarrow> real res" where
  "satAr G s t =
     bind_res (unbound_local ''T'') (\<lambda>T.
     bind_res (glob G ''T68conv'') (\<lambda>T68conv.
     let T = 273.15 + T * T68conv;
         a1 = - 173.5146;
         a2 = 245.4510;
         a3 = 141.8222;
         a4 = - 21.8020;
         b1 = - 0.034474;
         b2 = 0.014934;
         b3 = - 0.0017729
     in bind_res (glob_np G) (\<lambda>u.
        bind_res (glob G ''S'') (\<lambda>S.
        let lnC = a1 + a2 * (100 / T) + a3 * ln (T / 100) + a4 * (T / 100) +
                  S * (b1 + b2 * (T / 100) + b3 * ((T / 100) ^ 2));
            c = exp lnC
        in Inr c))))"

definition satN2 :: "globals \<Rightarrow> 'a \<Rightarrow> 'b \<Rightarrow> real res" where
  "satN2 G s t =
     bind_res (unbound_local ''T'') (\<lambda>T.
     bind_res (glob G ''T68conv'') (\<lambda>T68conv.
     let T = 273.15 + T * T68conv;
         a1 = - 172.4965;
         a2 = 248.4262;
         a3 = 143.0738;
         a4 = - 21.7120;
         b1 = - 0.049781;
         b2 = 0.025018;
         b3 = - 0.0034861
     in bind_res (glob_np G) (\<lambda>u.
        bind_res (glob G ''S'') (\<lambda>S.
        let lnC = a1 + a2 * (100 / T) + a3 * ln (T / 100) + a4 * (T / 100) +
                  S * (b1 + b2 * (T / 100) + b3 * ((T / 100) ^ 2));
            c = exp lnC
        in Inr c))))"

definition satO2 :: "globals \<Rightarrow> 'a \<Rightarrow> 'b \<Rightarrow> real res" where
  "satO2 G s t =
     bind_res (unbound_local ''T'') (\<lambda>T.
     bind_res (glob G ''T68conv'') (\<lambda>T68conv.
     let T = 273.15 + T * T68conv;
         a1 = - 173.4292;
         a2 = 249.6339;
         a3 = 143.3483;
         a4 = - 21.8492;
         b1 = - 0.033096;
         b2 = 0.014259;
         b3 = - 0.0017000
     in bind_res (glob_np G) (\<lambda>u.
        bind_res (glob G ''S'') (\<lambda>S.
        let lnC = a1 + a2 * (100 / T) + a3 * ln (T / 100) + a4 * (T / 100) +
                  S * (b1 + b2 * (T / 100) + b3 * ((T / 100) ^ 2));
            c = exp lnC
        in Inr c))))"

text \<open>
  \<^verbatim>\<open>swvel\<close> reads its two parameters under the names they have. They are Python
  numbers: \<^verbatim>\<open>2.0 * np.pi\<close> is a Python float, and dividing it by zero raises
  \<^verbatim>\<open>ZeroDivisionError\<close>. The second line computes with the numpy number that
  \<^verbatim>\<open>np.tanh\<close> returns.
\<close>

definition swvel :: "globals \<Rightarrow> real \<Rightarrow> real \<Rightarrow> real res" where
  "swvel G lenth depth =
     bind_res (glob_np G) (\<lambda>u.
     bind_res (if lenth = 0 then Inl ZeroDivisionError else Inr (2.0 * pi / lenth)) (\<lambda>k.
     bind_res (glob G ''g'') (\<lambda>g.
     let speed = sqrt (g * tanh (k * depth) / k)
     in Inr speed)))"

section \<open>Distance, geopotential anomaly, geostrophic velocity\<close>

subsection \<open>The numpy operations these functions use\<close>

text \<open>\<^verbatim>\<open>np.diff\<close> turns a number or a list into an array first.\<close>

definition np_asarray :: "pyval \<Rightarrow> ndarray" where
  "np_asarray v = (case v of Num x \<Rightarrow> ([], [x]) | Lst xs \<Rightarrow> ([length xs], xs) | Nd sh d \<Rightarrow> (sh, d))"

text \<open>
  \<^verbatim>\<open>np.diff(a, axis=0)\<close>: numpy raises \<^verbatim>\<open>ValueError\<close> for an input without a
  dimension. Otherwise the result has one row less, and its element at row-major
  position \<open>j\<close> is the element one row further minus the element at \<open>j\<close>.
\<close>

definition np_diff :: "pyval \<Rightarrow> ndarray res" where
  "np_diff v =
     (case np_asarray v of
        ([], d) \<Rightarrow> Inl ValueError
      | (k # rest, d) \<Rightarrow>
          Inr ((k - 1) # rest, map2 (\<lambda>b a. b - a) (drop (prod_list rest) d) d))"

text \<open>
  The built-in \<^verbatim>\<open>any\<close> applied to a boolean array iterates over its first axis and
  takes the truth value of each item: a 0-dimensional array cannot be iterated; the
  items of a 1-dimensional array are booleans; an item that is itself an array has a
  truth value only if it has at most one element (an empty one counts as false).
\<close>

fun py_any :: "nat list \<Rightarrow> bool list \<Rightarrow> bool res" where
  "py_any [] bs = Inl TypeError"
| "py_any [k] bs = Inr (list_ex (\<lambda>b. b) bs)"
| "py_any (k # rest) bs =
     (if k = 0 then Inr False
      else if 1 < prod_list rest then Inl ValueError
      else Inr (list_ex (\<lambda>b. b) bs))"

text \<open>\<^verbatim>\<open>max\<close> of a shape tuple: the empty tuple has no maximum.\<close>

fun py_max :: "nat list \<Rightarrow> nat res" where
  "py_max [] = Inl ValueError"
| "py_max (n # ns) = Inr (fold max ns n)"

text \<open>\<^verbatim>\<open>m,n = a.shape\<close> needs a shape of exactly two entries.\<close>

fun unpack2 :: "nat list \<Rightarrow> (nat \<times> nat) res" where
  "unpack2 [m, n] = Inr (m, n)"
| "unpack2 sh = Inl ValueError"

definition nd_map :: "(real \<Rightarrow> real) \<Rightarrow> ndarray \<Rightarrow> ndarray" where
  "nd_map f a = (fst a, map f (snd a))"

text \<open>
  \<^verbatim>\<open>a[idx]\<close> for an array \<^verbatim>\<open>idx\<close> of row numbers: the rows of \<^verbatim>\<open>a\<close> with these
  numbers, \<^verbatim>\<open>IndexError\<close> if one of them is not a row of \<^verbatim>\<open>a\<close> or \<^verbatim>\<open>a\<close> has no
  dimension.
\<close>

definition nd_rows :: "ndarray \<Rightarrow> nat list \<Rightarrow> ndarray res" where
  "nd_rows a idx =
     (case a of
        ([], d) \<Rightarrow> Inl IndexError
      | (k # rest, d) \<Rightarrow>
          if list_ex (\<lambda>i. k \<le> i) idx then Inl IndexError
          else (let r = prod_list rest
                in Inr (length idx # rest, concat (map (\<lambda>i. take r (drop (i * r) d)) idx))))"

text \<open>The slice \<^verbatim>\<open>xs[a:b]\<close>: a negative bound counts from the end, bounds are clipped.\<close>

definition py_slice :: "int \<Rightarrow> int \<Rightarrow> 'a list \<Rightarrow> 'a list" where
  "py_slice a b xs =
     (let len = int (length xs);
          lo = (if a < 0 then max 0 (len + a) else min a len);
          hi = (if b < 0 then max 0 (len + b) else min b len)
      in drop (nat lo) (take (nat hi) xs))"

text \<open>\<^verbatim>\<open>a[lo:hi]\<close> slices the rows of an array.\<close>

definition nd_slice0 :: "int \<Rightarrow> int \<Rightarrow> ndarray \<Rightarrow> ndarray res" where
  "nd_slice0 lo hi a =
     (case a of
        ([], d) \<Rightarrow> Inl IndexError
      | (k # rest, d) \<Rightarrow> nd_rows a (py_slice lo hi [0 ..< k]))"

text \<open>
  Broadcasting: the shapes are aligned at their last entries; two aligned entries must
  be equal or one of them 1, which is stretched; numpy raises \<^verbatim>\<open>ValueError\<close>
  otherwise. The result is listed index by index in row-major order, each operand being
  read at the index cut to its own dimensions, with 0 in a stretched dimension.
\<close>

fun bshape_rev :: "nat list \<Rightarrow> nat list \<Rightarrow> nat list option" where
  "bshape_rev [] ys = Some ys"
| "bshape_rev xs [] = Some xs"
| "bshape_rev (x # xs) (y # ys) =
     (if x = y \<or> y = 1 then map_option (\<lambda>s. x # s) (bshape_rev xs ys)
      else if x = 1 then map_option (\<lambda>s. y # s) (bshape_rev xs ys)
      else None)"

fun indices :: "nat list \<Rightarrow> nat list list" where
  "indices [] = [[]]"
| "indices (n # ns) = concat (map (\<lambda>i. map (\<lambda>idx. i # idx) (indices ns)) [0 ..< n])"

definition offset :: "nat list \<Rightarrow> nat list \<Rightarrow> nat" where
  "offset sh idx = foldl (\<lambda>acc (n, i). acc * n + i) 0 (zip sh idx)"

definition proj :: "nat list \<Rightarrow> nat list \<Rightarrow> nat list" where
  "proj sh idx = map2 (\<lambda>n i. if n = 1 then 0 else i) sh (drop (length idx - length sh) idx)"

definition nd_bcast :: "(real \<Rightarrow> real \<Rightarrow> real) \<Rightarrow> ndarray \<Rightarrow> ndarray \<Rightarrow> ndarray res" where
  "nd_bcast f a b =
     (case bshape_rev (rev (fst a)) (rev (fst b)) of
        None \<Rightarrow> Inl ValueError
      | Some rs \<Rightarrow>
          (let sh = rev rs
           in Inr (sh, map (\<lambda>idx. f (snd a ! offset (fst a) (proj (fst a) idx))
                                   (snd b ! offset (fst b) (proj (fst b) idx)))
                         (indices sh))))"

subsection \<open>dist\<close>

text \<open>
  The local \<^verbatim>\<open>dlon\<close> of \<^verbatim>\<open>dist\<close> after lines 210 to 213: the differences of
  consecutive longitudes, and where one of them exceeds 180 in magnitude, the masked
  assignment \<^verbatim>\<open>dlon[flag] = -np.sign(dlon[flag]) * (360 - abs(dlon[flag]))\<close>. Line 210
  reads \<^verbatim>\<open>np\<close>.
\<close>

definition dist_dlon :: "globals \<Rightarrow> pyval \<Rightarrow> ndarray res" where
  "dist_dlon G lon =
     bind_res (glob_np G) (\<lambda>u.
     bind_res (np_diff lon) (\<lambda>(sh, dlon).
     bind_res (py_any sh (map (\<lambda>d. \<bar>d\<bar> > 180) dlon)) (\<lambda>c.
     if c
     then (let flag = map (\<lambda>d. \<bar>d\<bar> > 180) dlon
           in Inr (sh, map2 (\<lambda>d b. if b then - sgn d * (360 - \<bar>d\<bar>) else d) dlon flag))
     else Inr (sh, dlon))))"

text \<open>
  \<^verbatim>\<open>dist\<close> reads its parameters under the names they have. Its first statement that
  can fail is \<^verbatim>\<open>npositions = max(lat.shape)\<close>: a Python number and a Python list have
  no attribute \<^verbatim>\<open>shape\<close>, and the shape of a numpy scalar is the empty tuple. The
  next statement reads \<^verbatim>\<open>np\<close>. The index array \<^verbatim>\<open>ind\<close> is
  \<open>0, ..., npositions - 2\<close>; \<^verbatim>\<open>np.angle\<close> of \<open>dep + dlat * 1j\<close> is the argument of that
  complex number.
\<close>

fun dist :: "globals \<Rightarrow> pyval \<Rightarrow> pyval \<Rightarrow> (ndarray \<times> ndarray) res" where
  "dist G lon (Num x) = Inl (AttributeError ''shape'')"
| "dist G lon (Lst xs) = Inl (AttributeError ''shape'')"
| "dist G lon (Nd sh lat) =
     (let DEG2MIN = (60::real);
          DEG2NM = (60::real);
          NM2KM = (1.8520::real)
      in bind_res (py_max sh) (\<lambda>npositions.
         bind_res (glob_np G) (\<lambda>u.
         let ind = [0 ..< npositions - 1] in
         bind_res (dist_dlon G lon) (\<lambda>dlon.
         bind_res (glob G ''DEG2RAD'') (\<lambda>DEG2RAD.
         let latrad = (sh, map (\<lambda>x. \<bar>x * DEG2RAD\<bar>) lat) in
         bind_res (nd_rows latrad (map (\<lambda>i. i + 1) ind)) (\<lambda>hi.
         bind_res (nd_rows latrad ind) (\<lambda>lo.
         bind_res (nd_bcast (\<lambda>a b. a + b) hi lo) (\<lambda>sm.
         bind_res (nd_bcast (\<lambda>c d. c * d) (nd_map (\<lambda>v. cos (v / 2)) sm) dlon) (\<lambda>dep.
         bind_res (np_diff (Nd sh lat)) (\<lambda>dlat.
         bind_res (nd_bcast (\<lambda>a b. a + b) (nd_map (\<lambda>x. x ^ 2) dlat) (nd_map (\<lambda>x. x ^ 2) dep)) (\<lambda>sq.
         let dist = nd_map (\<lambda>x. DEG2NM * sqrt x) sq;
             dist = nd_map (\<lambda>x. x * NM2KM) dist;
             RAD2DEG = 1 / DEG2RAD
         in bind_res (nd_bcast (\<lambda>re im. Arg (Complex re im)) dep dlat) (\<lambda>ang.
            let phaseangle = nd_map (\<lambda>a. a * RAD2DEG) ang
            in Inr (dist, phaseangle)))))))))))))"

subsection \<open>gpan\<close>

text \<open>
  \<^verbatim>\<open>gpan\<close> reads the module name \<^verbatim>\<open>P\<close> and takes its \<^verbatim>\<open>ndim\<close> and its
  \<^verbatim>\<open>shape\<close>. A module name holds a numpy number: its \<^verbatim>\<open>ndim\<close> is 0, so the test
  \<^verbatim>\<open>P.ndim == 1\<close> fails, and its \<^verbatim>\<open>shape\<close> is the empty tuple, so
  \<^verbatim>\<open>m,n = P.shape\<close> raises \<^verbatim>\<open>ValueError\<close>. The call of \<^verbatim>\<open>svan\<close> comes next, and then
  \<^verbatim>\<open>svn[1:m,:]\<close>, which would index the number that \<^verbatim>\<open>svan\<close> returns. Lines 857 to
  865 work on arrays and are reached by no run in which the module names hold numbers.
\<close>

definition gpan :: "globals \<Rightarrow> 'a \<Rightarrow> 'b \<Rightarrow> 'c \<Rightarrow> ndarray res" where
  "gpan G s t p =
     (let db2Pascal = (10 ^ 4 :: real)
      in bind_res (glob G ''P'') (\<lambda>P.
         bind_res (unpack2 []) (\<lambda>(m, n).
         bind_res (glob G ''S'') (\<lambda>S.
         bind_res (glob G ''T'') (\<lambda>T.
         bind_res (svan G S T P) (\<lambda>svn.
         Inl IndexError))))))"

subsection \<open>gvel and gvel2\<close>

text \<open>
  \<^verbatim>\<open>(lat[0:n-1] + lat[1:n]) / 2\<close>: a Python number cannot be sliced; the sum of two
  list slices is a list, which cannot be divided; a numpy scalar cannot be sliced.
\<close>

fun lat_mid :: "pyval \<Rightarrow> int \<Rightarrow> pyval res" where
  "lat_mid (Num x) n = Inl TypeError"
| "lat_mid (Lst xs) n = Inl TypeError"
| "lat_mid (Nd sh d) n =
     bind_res (nd_slice0 0 (n - 1) (sh, d)) (\<lambda>a.
     bind_res (nd_slice0 1 n (sh, d)) (\<lambda>b.
     bind_res (nd_bcast (\<lambda>x y. x + y) a b) (\<lambda>(s, sm).
     Inr (Nd s (map (\<lambda>x. x / 2) sm)))))"

text \<open>\<^verbatim>\<open>ga[:,a:b]\<close> of an array of \<open>m\<close> rows and \<open>n\<close> columns.\<close>

definition nd_cols :: "int \<Rightarrow> int \<Rightarrow> nat \<Rightarrow> nat \<Rightarrow> real list \<Rightarrow> ndarray" where
  "nd_cols a b m n d =
     ([m, length (py_slice a b [0 ..< n])],
      concat (map (\<lambda>i. py_slice a b (take n (drop (i * n) d))) [0 ..< m]))"

text \<open>
  \<^verbatim>\<open>-( ga[:,1:n] - ga[:,0:n-1] ) / LF\<close>: the two slices have the same shape, and
  \<^verbatim>\<open>LF\<close> is a number.
\<close>

definition ga_vel :: "nat \<Rightarrow> nat \<Rightarrow> real list \<Rightarrow> real \<Rightarrow> ndarray" where
  "ga_vel m n d LF =
     (let a = nd_cols 1 (int n) m n d;
          b = nd_cols 0 (int n - 1) m n d
      in (fst a, map (\<lambda>x. - x / LF) (map2 (\<lambda>x y. x - y) (snd a) (snd b))))"

text \<open>The product of what \<^verbatim>\<open>cor\<close> returned with an array, and with a numpy number.\<close>

fun py_mul_arr :: "pyval \<Rightarrow> ndarray \<Rightarrow> ndarray res" where
  "py_mul_arr (Num x) a = Inr (nd_map (\<lambda>y. x * y) a)"
| "py_mul_arr (Lst xs) a = nd_bcast (\<lambda>x y. x * y) ([length xs], xs) a"
| "py_mul_arr (Nd sh d) a = nd_bcast (\<lambda>x y. x * y) (sh, d) a"

fun py_scale :: "pyval \<Rightarrow> real \<Rightarrow> pyval" where
  "py_scale (Num x) c = Num (x * c)"
| "py_scale (Lst xs) c = Nd [length xs] (map (\<lambda>x. x * c) xs)"
| "py_scale (Nd sh d) c = Nd sh (map (\<lambda>x. x * c) d)"

text \<open>
  \<^verbatim>\<open>gvel\<close> assigns \<^verbatim>\<open>lf\<close> and reads \<^verbatim>\<open>LF\<close>; it calls \<^verbatim>\<open>cor\<close>, which the file does
  not define. \<^verbatim>\<open>m,n = ga.shape\<close> needs an array of two dimensions.
\<close>

definition gvel :: "globals \<Rightarrow> pyval \<Rightarrow> pyval \<Rightarrow> pyval \<Rightarrow> ndarray res" where
  "gvel G ga lon lat =
     bind_res (dist G lon lat) (\<lambda>(dista, phase).
     let distm = nd_map (\<lambda>x. 1000.0 * x) dista in
     case ga of
       Num x \<Rightarrow> Inl (AttributeError ''shape'')
     | Lst xs \<Rightarrow> Inl (AttributeError ''shape'')
     | Nd sh d \<Rightarrow>
         bind_res (unpack2 sh) (\<lambda>(m, n).
         bind_res (glob_cor G) (\<lambda>cor.
         bind_res (lat_mid lat (int n)) (\<lambda>mid.
         bind_res (cor mid) (\<lambda>f.
         bind_res (py_mul_arr f distm) (\<lambda>lf.
         bind_res (glob G ''LF'') (\<lambda>LF.
         let vel = ga_vel m n d LF
         in Inr vel)))))))"

text \<open>
  \<^verbatim>\<open>gvel2\<close> has the parameter \<^verbatim>\<open>dist\<close> (\<open>dist'\<close> below, the name being taken by
  the function) and reads \<^verbatim>\<open>dista\<close>.
\<close>

definition gvel2 :: "globals \<Rightarrow> pyval \<Rightarrow> 'a \<Rightarrow> pyval \<Rightarrow> ndarray res" where
  "gvel2 G ga dist' lat =
     bind_res (glob G ''dista'') (\<lambda>dista.
     let distm = 1000.0 * dista in
     case ga of
       Num x \<Rightarrow> Inl (AttributeError ''shape'')
     | Lst xs \<Rightarrow> Inl (AttributeError ''shape'')
     | Nd sh d \<Rightarrow>
         bind_res (unpack2 sh) (\<lambda>(m, n).
         bind_res (glob_cor G) (\<lambda>cor.
         bind_res (lat_mid lat (int n)) (\<lambda>mid.
         bind_res (cor mid) (\<lambda>f.
         let lf = py_scale f distm in
         bind_res (glob G ''LF'') (\<lambda>LF.
         let vel = ga_vel m n d LF
         in Inr vel))))))"

section \<open>Properties of the extra functions\<close>

text \<open>
  Claim C6. \<open>sigma_t(s, t, p)\<close> equals \<open>dens(s, t, p) - 1000\<close> elementwise, for every
  density routine bound to \<open>sw.dens\<close> and all arrays; in particular in the documented
  scenario with eight samples, whatever the temperature-scale conversion \<open>T90conv\<close> is.
\<close>

theorem sigma_t_elementwise:
  fixes T90conv :: "real list \<Rightarrow> real list"
  shows "length (sigma_t sw_dens s t p) = length (sw_dens s t p) \<and>
   (\<forall>i < length (sw_dens s t p). sigma_t sw_dens s t p ! i = sw_dens s t p ! i - 1000) \<and>
   sigma_t sw_dens [0, 0, 0, 0, 35, 35, 35, 35] (T90conv [0, 0, 30, 30, 0, 0, 30, 30])
       [0, 10000, 0, 10000, 0, 10000, 0, 10000]
     = map (\<lambda>d. d - 1000)
         (sw_dens [0, 0, 0, 0, 35, 35, 35, 35] (T90conv [0, 0, 30, 30, 0, 0, 30, 30])
            [0, 10000, 0, 10000, 0, 10000, 0, 10000])"
  by (simp add: sigma_t_def asarray_def)

theorem sigma_t_elementwise_witness:
  "(1::nat) < length [28, 70 :: real] \<and>
   sigma_t (\<lambda>s t p. map (\<lambda>x. x + 1000) s) [28, 70] [0, 0] [0, 10000] ! 1 = 70"
proof -
  have h: "(1::nat) < length [28, 70 :: real]"
    by simp
  have "\<forall>i < length [1028, 1070 :: real].
          sigma_t (\<lambda>s t p. map (\<lambda>x. x + 1000) s) [28, 70] [0, 0] [0, 10000] ! i
            = [1028, 1070] ! i - 1000"
    using sigma_t_elementwise [of "\<lambda>s t p. map (\<lambda>x. x + 1000) s" "[28, 70]" "[0, 0]" "[0, 10000]"]
    by simp
  then have "sigma_t (\<lambda>s t p. map (\<lambda>x. x + 1000) s) [28, 70] [0, 0] [0, 10000] ! 1
               = [1028, 1070 :: real] ! 1 - 1000"
    using h by (simp del: One_nat_def)
  then show ?thesis
    using h by simp
qed

text \<open>
  Claim C8. \<open>N\<close> is the sign-preserving square root: \<open>N(x) = sign(x) * sqrt(|x|)\<close> for every
  real \<open>x\<close>; the function has no error branch, and \<open>N(-4) = -2\<close>.
\<close>

theorem N_sign_preserving_sqrt:
  "N x = sgn x * sqrt \<bar>x\<bar> \<and> N (- 4) = - 2"
proof -
  have "sqrt (4::real) = 2"
    using real_sqrt_abs [of 2] by simp
  then show ?thesis
    by (simp add: N_def)
qed

text \<open>
  Claim C10. The signed square that \<open>richnumb\<close> computes from \<open>n\<close> (its numerator, which
  is its result at unit shear) is undone by \<open>N\<close>: \<open>N(x * x * sign(x)) = x\<close> for every real
  \<open>x\<close>.
\<close>

theorem N_inverts_signed_square:
  "N (x * x * sgn x) = x \<and> N (richnumb x 1) = x"
proof -
  have a: "\<bar>x * x * sgn x\<bar> = \<bar>x\<bar> ^ 2"
    by (simp add: abs_mult power2_eq_square abs_sgn_eq)
  have s: "sgn (x * x * sgn x) = sgn x"
    by (cases x "0::real" rule: linorder_cases) (simp_all add: sgn_mult)
  have "N (x * x * sgn x) = \<bar>x\<bar> * sgn x"
    unfolding N_def a s by simp
  also have "\<dots> = x"
    by (cases x "0::real" rule: linorder_cases) simp_all
  finally have n: "N (x * x * sgn x) = x" .
  then show ?thesis
    by (simp add: richnumb_def power2_eq_square)
qed

section \<open>Runs of the equation of state\<close>

lemma bind_res_Inl: "bind_res (Inl e) f = Inl e"
  by (simp add: bind_res_def)

lemma bind_res_Inr: "bind_res (Inr x) f = f x"
  by (simp add: bind_res_def)

lemma glob_file_globals: "glob file_globals x = Inl (NameError x)"
  by (simp add: glob_def file_globals_def)

lemma dens_not_Inr: "dens G s t p \<noteq> Inr v"
  by (simp add: dens_def bind_res_def unbound_local_def split: sum.split)

text \<open>
  Claim C1 says that \<open>dens(s, t, p)\<close> is \<open>dens0(s, t) / (1 - P/K)\<close>. The body reads
  \<^verbatim>\<open>S\<close>, \<^verbatim>\<open>T\<close> and \<^verbatim>\<open>P\<close>, not its parameters: \<open>dens(35, 0, 0)\<close> raises
  \<^verbatim>\<open>NameError\<close> for \<^verbatim>\<open>S\<close>, and whatever the module namespace binds, no call of
  \<^verbatim>\<open>dens\<close> returns, since \<^verbatim>\<open>P\<close> is local and read before it is assigned.
\<close>

theorem dens_35_0_0_raises:
  "dens file_globals (35::real) (0::real) (0::real) = Inl (NameError ''S'') \<and>
   (\<forall>G. \<not> returns (dens G (35::real) (0::real) (0::real)))"
proof -
  have "\<not> returns (dens G (35::real) (0::real) (0::real))" for G
    by (simp add: returns_def dens_not_Inr split: sum.split)
  then show ?thesis
    by (simp add: dens_def glob_file_globals bind_res_Inl)
qed

text \<open>
  Claim C2 says that \<open>pden(s, t, p, pr)\<close> returns the value of
  \<open>dens(s, ptmp(s, t, p, pr), pr)\<close>. \<open>pden(35, 10, 1000, 0)\<close> raises \<^verbatim>\<open>NameError\<close> for
  \<^verbatim>\<open>S\<close>, and no call of \<^verbatim>\<open>pden\<close> returns a value in any module namespace, since
  its last step is a call of \<^verbatim>\<open>dens\<close>.
\<close>

theorem pden_35_10_1000_0_raises:
  "pden file_globals (35::real) (10::real) (1000::real) (0::real) = Inl (NameError ''S'') \<and>
   (\<forall>G. \<not> returns (pden G (35::real) (10::real) (1000::real) (0::real)))"
proof -
  have "\<not> returns (pden G (35::real) (10::real) (1000::real) (0::real))" for G
    by (simp add: pden_def bind_res_def returns_def dens_not_Inr split: sum.split)
  then show ?thesis
    by (simp add: pden_def glob_file_globals bind_res_Inl)
qed

text \<open>
  Claim C3 says that \<open>temp(s, pt, p, pr)\<close> returns \<open>ptmp(s, pt, pr, p)\<close>.
  \<open>temp(35, 10, 1000, 0)\<close> raises \<^verbatim>\<open>NameError\<close> for \<^verbatim>\<open>S\<close>, and
  \<open>ptmp(35, 10, 0, 1000)\<close> raises \<^verbatim>\<open>NameError\<close> for \<^verbatim>\<open>PR\<close>: neither returns.
\<close>

theorem temp_35_10_1000_0_raises:
  "temp file_globals (35::real) (10::real) (1000::real) (0::real) = Inl (NameError ''S'') \<and>
   ptmp file_globals (35::real) (10::real) (0::real) (1000::real) = Inl (NameError ''PR'')"
  by (simp add: temp_def ptmp_def glob_file_globals bind_res_Inl)

text \<open>
  Claim C5 says that \<open>svan(35, 0, 0)\<close> returns 0. The call raises \<^verbatim>\<open>NameError\<close> for
  \<^verbatim>\<open>S\<close>, and no call of \<^verbatim>\<open>svan\<close> returns a value in any module namespace, since
  it calls \<^verbatim>\<open>dens\<close>.
\<close>

theorem svan_35_0_0_raises:
  "svan file_globals (35::real) (0::real) (0::real) = Inl (NameError ''S'') \<and>
   (\<forall>G. \<not> returns (svan G (35::real) (0::real) (0::real)))"
proof -
  have "\<not> returns (svan G (35::real) (0::real) (0::real))" for G
    by (simp add: svan_def bind_res_def returns_def dens_not_Inr split: sum.split)
  then show ?thesis
    by (simp add: svan_def glob_file_globals bind_res_Inl)
qed

section \<open>Degenerate denominators\<close>

lemma inf_of_nonfinite: "nonfinite (inf_of sg)"
  by (simp add: inf_of_def nonfinite_def)

lemma richnumb_np_finite:
  "s \<noteq> 0 \<Longrightarrow> richnumb_np (Fin n) (Fin s) = Fin (richnumb n s)"
  by (simp add: richnumb_np_def richnumb_def)

text \<open>
  Claim C9 says that a degenerate denominator gives a non-finite value and no exception.
  For \<^verbatim>\<open>richnumb\<close> it does: at zero shear the result is an infinity or not-a-number,
  whatever \<open>n\<close> is. For \<^verbatim>\<open>dens\<close> it does not: every call raises, \<^verbatim>\<open>NameError\<close> for
  \<^verbatim>\<open>S\<close> in the namespace of the file, and in no module namespace does a call return, so
  no call with a zero bulk modulus hands on a non-finite value.
\<close>

theorem richnumb_nonfinite_dens_raises:
  "nonfinite (richnumb_np n (Fin 0)) \<and>
   dens file_globals s t p = Inl (NameError ''S'') \<and>
   (\<forall>G. \<not> returns (dens G s t p))"
proof -
  have "nonfinite (richnumb_np n (Fin 0))"
    by (cases n) (simp_all add: richnumb_np_def inf_of_nonfinite, simp_all add: nonfinite_def inf_of_def)
  moreover have "\<not> returns (dens G s t p)" for G
    by (simp add: returns_def dens_not_Inr split: sum.split)
  ultimately show ?thesis
    by (simp add: dens_def glob_file_globals bind_res_Inl)
qed

section \<open>Runs in the namespace of the file\<close>

lemma glob_np_file_globals: "glob_np file_globals = Inl (NameError ''np'')"
  by (simp add: glob_np_def file_globals_def)

lemma file_runs_scalar:
  "svel file_globals s1 t1 p1 = Inl (UnboundLocalError ''P'')"
  "pres file_globals depth lat1 = Inl (NameError ''np'')"
  "satAr file_globals s2 t2 = Inl (UnboundLocalError ''T'')"
  "satN2 file_globals s3 t3 = Inl (UnboundLocalError ''T'')"
  "satO2 file_globals s4 t4 = Inl (UnboundLocalError ''T'')"
  "dens0 file_globals s5 t5 = Inl (NameError ''T'')"
  "smow file_globals t6 = Inl (NameError ''T'')"
  "seck file_globals s7 t7 p7 = Inl (UnboundLocalError ''P'')"
  "dens file_globals s8 t8 p8 = Inl (NameError ''S'')"
  "pden file_globals s9 t9 p9 pr9 = Inl (NameError ''S'')"
  "svan file_globals s10 t10 p10 = Inl (NameError ''S'')"
  "cp file_globals s11 t11 p11 = Inl (UnboundLocalError ''P'')"
  "ptmp file_globals s12 t12 p12 pr12 = Inl (NameError ''PR'')"
  "temp file_globals s13 pt13 p13 pr13 = Inl (NameError ''S'')"
  "swvel file_globals lenth depth' = Inl (NameError ''np'')"
  "gpan file_globals s14 t14 p14 = Inl (NameError ''P'')"
  "gvel2 file_globals ga2 dist' lat2 = Inl (NameError ''dista'')"
  by (simp_all add: svel_def pres_def satAr_def satN2_def satO2_def dens0_def smow_def seck_def
      dens_def pden_def svan_def cp_def ptmp_def temp_def swvel_def gpan_def gvel2_def
      glob_file_globals unbound_local_def glob_np_file_globals bind_res_Inl)

lemma dist_file_globals:
  "dist file_globals lon (Nd (n # sh) d) = Inl (NameError ''np'')"
  "dist file_globals lon (Num x) = Inl (AttributeError ''shape'')"
  "dist file_globals lon (Lst xs) = Inl (AttributeError ''shape'')"
  "dist file_globals lon (Nd [] d) = Inl ValueError"
  by (simp_all add: glob_np_file_globals bind_res_Inl bind_res_Inr)

lemma gvel_file_globals:
  "gvel file_globals ga lon (Nd (n # sh) d) = Inl (NameError ''np'')"
  "gvel file_globals ga lon (Num x) = Inl (AttributeError ''shape'')"
  "gvel file_globals ga lon (Lst xs) = Inl (AttributeError ''shape'')"
  "gvel file_globals ga lon (Nd [] d) = Inl ValueError"
  by (simp_all add: gvel_def dist_file_globals bind_res_Inl del: dist.simps)

lemma dist_file_globals_never: "\<not> returns (dist file_globals lon lat)"
proof (cases lat)
  case (Nd sh d)
  then show ?thesis
    by (cases sh) (simp_all add: dist_file_globals returns_def del: dist.simps)
qed (simp_all add: dist_file_globals returns_def del: dist.simps)

lemma gvel_file_globals_never: "\<not> returns (gvel file_globals ga lon lat)"
proof (cases lat)
  case (Nd sh d)
  then show ?thesis
    by (cases sh) (simp_all add: gvel_file_globals returns_def)
qed (simp_all add: gvel_file_globals returns_def)

text \<open>
  Claim C4, amended. In the namespace of the file, no function returns a value, whatever
  its arguments. The exception is a \<^verbatim>\<open>NameError\<close> (\<^verbatim>\<open>UnboundLocalError\<close> included) in
  every function but \<^verbatim>\<open>dist\<close> and \<^verbatim>\<open>gvel\<close> for all arguments, and in \<^verbatim>\<open>dist\<close> and
  \<^verbatim>\<open>gvel\<close> when \<^verbatim>\<open>lat\<close> is a numpy array of at least one dimension. When \<^verbatim>\<open>lat\<close>
  is a Python number or a Python list, these two raise \<^verbatim>\<open>AttributeError\<close> at
  \<^verbatim>\<open>lat.shape\<close>, and when \<^verbatim>\<open>lat\<close> is a numpy scalar or a 0-dimensional array they raise
  \<^verbatim>\<open>ValueError\<close> at \<^verbatim>\<open>max(lat.shape)\<close>, in both cases before any unbound name is
  read.
\<close>

theorem file_functions_never_return:
  "raises_NameError (svel file_globals s1 t1 p1) \<and>
   raises_NameError (pres file_globals depth lat1) \<and>
   raises_NameError (satAr file_globals s2 t2) \<and>
   raises_NameError (satN2 file_globals s3 t3) \<and>
   raises_NameError (satO2 file_globals s4 t4) \<and>
   raises_NameError (dens0 file_globals s5 t5) \<and>
   raises_NameError (smow file_globals t6) \<and>
   raises_NameError (seck file_globals s7 t7 p7) \<and>
   raises_NameError (dens file_globals s8 t8 p8) \<and>
   raises_NameError (pden file_globals s9 t9 p9 pr9) \<and>
   raises_NameError (svan file_globals s10 t10 p10) \<and>
   raises_NameError (cp file_globals s11 t11 p11) \<and>
   raises_NameError (ptmp file_globals s12 t12 p12 pr12) \<and>
   raises_NameError (temp file_globals s13 pt13 p13 pr13) \<and>
   raises_NameError (swvel file_globals lenth depth') \<and>
   raises_NameError (gpan file_globals s14 t14 p14) \<and>
   raises_NameError (gvel2 file_globals ga2 dist' lat2) \<and>
   raises_NameError (dist file_globals lon (Nd (n # sh) d)) \<and>
   dist file_globals lon (Num x) = Inl (AttributeError ''shape'') \<and>
   dist file_globals lon (Lst xs) = Inl (AttributeError ''shape'') \<and>
   dist file_globals lon (Nd [] d) = Inl ValueError \<and>
   raises_NameError (gvel file_globals ga lon (Nd (n # sh) d)) \<and>
   gvel file_globals ga lon (Num x) = Inl (AttributeError ''shape'') \<and>
   gvel file_globals ga lon (Lst xs) = Inl (AttributeError ''shape'') \<and>
   gvel file_globals ga lon (Nd [] d) = Inl ValueError \<and>
   \<not> returns (dist file_globals lon lat) \<and>
   \<not> returns (gvel file_globals ga lon lat)"
  unfolding file_runs_scalar dist_file_globals gvel_file_globals raises_NameError_def
  using dist_file_globals_never [of lon lat] gvel_file_globals_never [of ga lon lat]
  by (simp del: dist.simps)

text \<open>
  Claim C4 as stated fails: called with two Python lists, \<^verbatim>\<open>dist\<close> raises
  \<^verbatim>\<open>AttributeError\<close>, which is not a \<^verbatim>\<open>NameError\<close>.
\<close>

theorem dist_of_lists_counterexample:
  "\<not> raises_NameError (dist file_globals (Lst [179, - 179]) (Lst [0, 0]))"
  by (simp add: raises_NameError_def dist_file_globals del: dist.simps)

section \<open>Runs of the distance routine\<close>

lemma map2_mask:
  "map2 (\<lambda>d b. if b then f d else d) xs (map P xs) = map (\<lambda>d. if P d then f d else d) xs"
  by (induction xs) simp_all

lemma list_ex_id_map: "list_ex (\<lambda>b. b) (map P xs) = list_ex P xs"
  by (induction xs) simp_all

text \<open>With numpy bound, lines 210 to 213 on a list or a one-dimensional array.\<close>

lemma dist_dlon_1d:
  assumes "g_np G" and "lon = Lst xs \<or> lon = Nd [length xs] xs"
  shows "dist_dlon G lon =
     Inr ([length xs - 1],
          map (\<lambda>d. if 180 < \<bar>d\<bar> then - sgn d * (360 - \<bar>d\<bar>) else d)
            (map2 (\<lambda>b a. b - a) (drop 1 xs) xs))"
proof -
  define dl where "dl = map2 (\<lambda>b a. b - a) (drop 1 xs) xs"
  have nd: "np_diff lon = Inr ([length xs - 1], dl)"
    using assms(2) by (auto simp: np_diff_def np_asarray_def dl_def)
  have gnp: "glob_np G = Inr ()"
    using assms(1) by (simp add: glob_np_def)
  have "dist_dlon G lon =
      Inr ([length xs - 1], map (\<lambda>d. if 180 < \<bar>d\<bar> then - sgn d * (360 - \<bar>d\<bar>) else d) dl)"
  proof (cases "list_ex (\<lambda>d. 180 < \<bar>d\<bar>) dl")
    case True
    then show ?thesis
      unfolding dist_dlon_def gnp nd bind_res_Inr
      by (simp add: bind_res_Inr list_ex_id_map map2_mask)
  next
    case False
    then have "map (\<lambda>d. if 180 < \<bar>d\<bar> then - sgn d * (360 - \<bar>d\<bar>) else d) dl = dl"
      by (intro map_idI) (auto simp: list_ex_iff)
    with False show ?thesis
      unfolding dist_dlon_def gnp nd bind_res_Inr
      by (simp add: bind_res_Inr list_ex_id_map)
  qed
  then show ?thesis
    by (simp only: dl_def)
qed

text \<open>
  With \<^verbatim>\<open>np\<close> and \<^verbatim>\<open>DEG2RAD\<close> bound: two stations on the equator, as arrays, as column
  vectors and with the longitudes in a list; and two rows of two stations, where the
  truth value of a row of \<^verbatim>\<open>abs(dlon) > 180\<close> is ambiguous.
\<close>

lemma Arg_pos_real: "0 < x \<Longrightarrow> Arg (Complex x 0) = 0"
  by (rule cis_Arg_unique) (simp_all add: sgn_eq cmod_def complex_eq_iff)

lemma sqrt4: "sqrt (4::real) = 2"
  using real_sqrt_abs [of 2] by simp

lemmas nd_defs = glob_np_def glob_def bind_res_def nd_rows_def nd_bcast_def offset_def proj_def
  nd_map_def np_diff_def np_asarray_def dist_dlon_def file_globals_def

lemma dist_1d_example:
  "dist (file_globals\<lparr>g_np := True, g_num := [''DEG2RAD'' \<mapsto> pi / 180]\<rparr>)
     (Nd [2] [179, - 179]) (Nd [2] [0, 0]) = Inr (([1], [222.24]), ([1], [0]))"
  by (simp add: nd_defs sqrt4 Arg_pos_real)

lemma dist_column_example:
  "dist (file_globals\<lparr>g_np := True, g_num := [''DEG2RAD'' \<mapsto> pi / 180]\<rparr>)
     (Nd [2, 1] [179, - 179]) (Nd [2, 1] [0, 0]) = Inr (([1, 1], [222.24]), ([1, 1], [0]))"
  by (simp add: nd_defs sqrt4 Arg_pos_real)

lemma dist_matrix_example:
  "dist (file_globals\<lparr>g_np := True, g_num := [''DEG2RAD'' \<mapsto> pi / 180]\<rparr>)
     (Nd [2, 2] [179, 0, - 179, 0]) (Nd [2, 2] [0, 0, 0, 0]) = Inl ValueError"
  by (simp add: nd_defs)

lemma dist_list_lon_example:
  "dist (file_globals\<lparr>g_np := True, g_num := [''DEG2RAD'' \<mapsto> pi / 180]\<rparr>)
     (Lst [179, - 179]) (Nd [2] [0, 0]) = Inr (([1], [222.24]), ([1], [0]))"
  by (simp add: nd_defs sqrt4 Arg_pos_real)

text \<open>
  Claim C7 says that \<^verbatim>\<open>dist\<close> replaces a longitude difference beyond 180 degrees by
  \<open>-sign(d) * (360 - |d|)\<close>, so that the longitudes 179, -179 give a difference of 2. In
  the file, which imports nothing, the call with two arrays raises \<^verbatim>\<open>NameError\<close> for
  \<^verbatim>\<open>np\<close> at line 208, before the differences are taken, the call with two lists raises
  \<^verbatim>\<open>AttributeError\<close> at line 207, and no call of \<^verbatim>\<open>dist\<close> returns. Once \<^verbatim>\<open>np\<close> is
  bound, lines 210 to 213 give the difference 2 for these longitudes, as an array and
  as a list.
\<close>

theorem dist_179_minus_179_raises:
  "dist file_globals (Nd [2] [179, - 179]) (Nd [2] [0, 0]) = Inl (NameError ''np'') \<and>
   dist file_globals (Lst [179, - 179]) (Lst [0, 0]) = Inl (AttributeError ''shape'') \<and>
   (\<forall>lon lat. \<not> returns (dist file_globals lon lat)) \<and>
   dist_dlon (file_globals\<lparr>g_np := True\<rparr>) (Nd [2] [179, - 179]) = Inr ([1], [2]) \<and>
   dist_dlon (file_globals\<lparr>g_np := True\<rparr>) (Lst [179, - 179]) = Inr ([1], [2])"
proof -
  have a: "dist_dlon (file_globals\<lparr>g_np := True\<rparr>) (Nd [2] [179, - 179]) = Inr ([1], [2])"
    using dist_dlon_1d [of "file_globals\<lparr>g_np := True\<rparr>" "Nd [2] [179, - 179]" "[179, - 179]"]
    by simp
  have b: "dist_dlon (file_globals\<lparr>g_np := True\<rparr>) (Lst [179, - 179]) = Inr ([1], [2])"
    using dist_dlon_1d [of "file_globals\<lparr>g_np := True\<rparr>" "Lst [179, - 179]" "[179, - 179]"]
    by simp
  show ?thesis
    using a b dist_file_globals_never
    by (simp add: dist_file_globals del: dist.simps)
qed

end
